theory Spec2Isabelle
  imports Complex_Main "HOL-Library.Word"
begin

section \<open>JavaScript values as the client uses them\<close>

text \<open>
  The client is \<^verbatim>\<open>static/js/app.js\<close>. A JavaScript string is a sequence of UTF-16 code
  units: \<^verbatim>\<open>length\<close> and \<^verbatim>\<open>substring\<close> count code units, and the truncation marker
  (U+2026) and the dash placeholder (U+2014) are one code unit each. Literals of the
  source that are plain ASCII are written with \<open>js\<close>.
\<close>

type_synonym code_unit = "16 word"
type_synonym jsstring = "code_unit list"

definition js :: "string \<Rightarrow> jsstring" where
  "js s = map of_char s"

text \<open>
  A property of an object that came out of \<^verbatim>\<open>JSON.parse\<close> is missing (\<^verbatim>\<open>undefined\<close>
  when read), \<^verbatim>\<open>null\<close>, or a value. The fields carry the types of the data the services
  return (strings, numbers, lists, objects).
\<close>

datatype 'a jsfield = Undefined | Null | Val 'a

text \<open>\<^verbatim>\<open>x == null\<close>: true of \<^verbatim>\<open>null\<close> and of \<^verbatim>\<open>undefined\<close>.\<close>

definition nullish :: "'a jsfield \<Rightarrow> bool" where
  "nullish x = (case x of Val v \<Rightarrow> False | Null \<Rightarrow> True | Undefined \<Rightarrow> True)"

text \<open>Truthiness of a string-valued property: the empty string is falsy.\<close>

definition truthy_str :: "jsstring jsfield \<Rightarrow> bool" where
  "truthy_str x = (case x of Val s \<Rightarrow> s \<noteq> [] | Null \<Rightarrow> False | Undefined \<Rightarrow> False)"

text \<open>\<^verbatim>\<open>x || d\<close> for a string-valued property and a string default.\<close>

definition str_or :: "jsstring jsfield \<Rightarrow> jsstring \<Rightarrow> jsstring" where
  "str_or x d = (case x of Val s \<Rightarrow> (if s \<noteq> [] then s else d) | Null \<Rightarrow> d | Undefined \<Rightarrow> d)"

section \<open>Numbers\<close>

text \<open>
  A Number of the client is an IEEE 754 binary64 value: a finite double, held as the
  rational it denotes, an infinity, or \<^verbatim>\<open>NaN\<close>. The sign of zero is not kept: the client
  never divides by a zero (line 75 replaces a zero total by 1), a negative zero is falsy
  and prints as \<^verbatim>\<open>0\<close> like the positive one.
\<close>

datatype number = Fin rat | PosInf | NegInf | NaN

text \<open>
  Rounding to binary64, to the nearest double with ties to the even significand.
  \<open>floor_log b a\<close> is the integer part of the logarithm of a positive \<open>a\<close> to the base
  \<open>b\<close>, found by stepping from 0 (at most 1100 steps, which covers the exponents of
  binary64); \<open>quantum a\<close> is the spacing of the doubles around \<open>a\<close> (the subnormal
  spacing below \<open>2\<^sup>-\<^sup>1\<^sup>0\<^sup>2\<^sup>2\<close>); a result of \<open>2\<^sup>1\<^sup>0\<^sup>2\<^sup>4\<close> or more is an infinity.
\<close>

definition power_of :: "rat \<Rightarrow> int \<Rightarrow> rat" where
  "power_of b e = (if 0 \<le> e then b ^ nat e else 1 / b ^ nat (- e))"

fun log_up :: "nat \<Rightarrow> rat \<Rightarrow> int \<Rightarrow> rat \<Rightarrow> int" where
  "log_up n b k a =
     (if n = 0 \<or> a < power_of b (k + 1) then k else log_up (n - 1) b (k + 1) a)"

fun log_down :: "nat \<Rightarrow> rat \<Rightarrow> int \<Rightarrow> rat \<Rightarrow> int" where
  "log_down n b k a =
     (if n = 0 \<or> power_of b k \<le> a then k else log_down (n - 1) b (k - 1) a)"

definition floor_log :: "rat \<Rightarrow> rat \<Rightarrow> int" where
  "floor_log b a = (if 1 \<le> a then log_up 1100 b 0 a else log_down 1100 b (- 1) a)"

definition round_half_even :: "rat \<Rightarrow> int" where
  "round_half_even x =
     (if x - of_int \<lfloor>x\<rfloor> < 1 / 2 then \<lfloor>x\<rfloor>
      else if 1 / 2 < x - of_int \<lfloor>x\<rfloor> then \<lfloor>x\<rfloor> + 1
      else if even \<lfloor>x\<rfloor> then \<lfloor>x\<rfloor> else \<lfloor>x\<rfloor> + 1)"

definition quantum :: "rat \<Rightarrow> rat" where
  "quantum a = power_of 2 (max (floor_log 2 a) (- 1022) - 52)"

definition nearest :: "rat \<Rightarrow> rat" where
  "nearest a = of_int (round_half_even (a / quantum a)) * quantum a"

definition binary64 :: "rat \<Rightarrow> number" where
  "binary64 q =
     (if q = 0 then Fin 0
      else if power_of 2 1024 \<le> nearest \<bar>q\<bar> then (if 0 < q then PosInf else NegInf)
      else Fin (if 0 < q then nearest \<bar>q\<bar> else - nearest \<bar>q\<bar>))"

text \<open>
  A number as the data carries it is a decimal literal, a rational: \<^verbatim>\<open>JSON.parse\<close> gives
  the client \<open>binary64\<close> of it. Multiplication and division round the exact result
  (the operands are doubles); a division by zero takes the zero as positive.
\<close>

fun num_mul :: "number \<Rightarrow> number \<Rightarrow> number" where
  "num_mul (Fin x) (Fin y) = binary64 (x * y)"
| "num_mul NaN y = NaN"
| "num_mul x NaN = NaN"
| "num_mul (Fin x) PosInf = (if x = 0 then NaN else if 0 < x then PosInf else NegInf)"
| "num_mul (Fin x) NegInf = (if x = 0 then NaN else if 0 < x then NegInf else PosInf)"
| "num_mul PosInf (Fin y) = (if y = 0 then NaN else if 0 < y then PosInf else NegInf)"
| "num_mul NegInf (Fin y) = (if y = 0 then NaN else if 0 < y then NegInf else PosInf)"
| "num_mul PosInf PosInf = PosInf"
| "num_mul PosInf NegInf = NegInf"
| "num_mul NegInf PosInf = NegInf"
| "num_mul NegInf NegInf = PosInf"

fun num_div :: "number \<Rightarrow> number \<Rightarrow> number" where
  "num_div (Fin x) (Fin y) =
     (if y = 0 then (if x = 0 then NaN else if 0 < x then PosInf else NegInf)
      else binary64 (x / y))"
| "num_div NaN y = NaN"
| "num_div x NaN = NaN"
| "num_div (Fin x) PosInf = Fin 0"
| "num_div (Fin x) NegInf = Fin 0"
| "num_div PosInf (Fin y) = (if 0 \<le> y then PosInf else NegInf)"
| "num_div NegInf (Fin y) = (if 0 \<le> y then NegInf else PosInf)"
| "num_div PosInf PosInf = NaN"
| "num_div PosInf NegInf = NaN"
| "num_div NegInf PosInf = NaN"
| "num_div NegInf NegInf = NaN"

text \<open>
  \<^verbatim>\<open>Math.round\<close>: the nearest integer, a tie going up; computed on the double, exactly.
\<close>

fun Math_round :: "number \<Rightarrow> number" where
  "Math_round (Fin x) = Fin (of_int \<lfloor>x + 1 / 2\<rfloor>)"
| "Math_round PosInf = PosInf"
| "Math_round NegInf = NegInf"
| "Math_round NaN = NaN"

text \<open>Truthiness of a Number, and \<^verbatim>\<open>x || d\<close> for a number-valued property.\<close>

fun truthy_num :: "number \<Rightarrow> bool" where
  "truthy_num (Fin x) = (x \<noteq> 0)"
| "truthy_num PosInf = True"
| "truthy_num NegInf = True"
| "truthy_num NaN = False"

definition num_or :: "rat jsfield \<Rightarrow> number \<Rightarrow> number" where
  "num_or x d =
     (case x of
        Val n \<Rightarrow> (if truthy_num (binary64 n) then binary64 n else d)
      | Null \<Rightarrow> d
      | Undefined \<Rightarrow> d)"

text \<open>
  The conversion of a Number to a string (\<^verbatim>\<open>Number::toString\<close> of ECMAScript), as string
  concatenation and the assignment to \<^verbatim>\<open>textContent\<close> or \<^verbatim>\<open>value\<close> perform it. For a
  positive double \<open>x\<close> it takes the least number \<open>k\<close> of digits, at most 17, for which a
  decimal \<open>s \<times> 10\<^sup>n\<^sup>-\<^sup>k\<close> of \<open>k\<close> digits rounds to \<open>x\<close> (\<open>represents\<close>), the closest
  to \<open>x\<close> if there are two (\<open>shortest\<close> tries the decimal below \<open>x\<close> and the one above),
  and lays the digits out with a point, with zeros, or with an exponent
  (\<open>format_digits\<close>).
\<close>

fun nat_digits :: "nat \<Rightarrow> jsstring" where
  "nat_digits n =
     (if n < 10 then [of_nat (48 + n)]
      else nat_digits (n div 10) @ [of_nat (48 + n mod 10)])"

definition represents :: "rat \<Rightarrow> int \<Rightarrow> int \<Rightarrow> bool" where
  "represents x s e = (binary64 (of_int s * power_of 10 e) = Fin x)"

definition lower :: "rat \<Rightarrow> int \<Rightarrow> int" where
  "lower x e = \<lfloor>x / power_of 10 e\<rfloor>"

definition prefer_lower :: "rat \<Rightarrow> int \<Rightarrow> bool" where
  "prefer_lower x e =
     (represents x (lower x e) e
      \<and> (if represents x (lower x e + 1) e
         then x / power_of 10 e - of_int (lower x e) < of_int (lower x e + 1) - x / power_of 10 e
              \<or> (x / power_of 10 e - of_int (lower x e) = of_int (lower x e + 1) - x / power_of 10 e
                  \<and> even (lower x e))
         else True))"

fun shortest :: "nat \<Rightarrow> nat \<Rightarrow> int \<Rightarrow> rat \<Rightarrow> int \<times> int" where
  "shortest fuel k n x =
     (if fuel = 0 \<or> prefer_lower x (n - int k) then (lower x (n - int k), n)
      else if represents x (lower x (n - int k) + 1) (n - int k)
      then (if lower x (n - int k) + 1 = 10 ^ k then (10 ^ (k - 1), n + 1)
            else (lower x (n - int k) + 1, n))
      else shortest (fuel - 1) (Suc k) n x)"

definition format_digits :: "jsstring \<Rightarrow> int \<Rightarrow> jsstring" where
  "format_digits ds n =
     (if int (length ds) \<le> n \<and> n \<le> 21 then ds @ replicate (nat (n - int (length ds))) 0x30
      else if 0 < n \<and> n \<le> 21 then take (nat n) ds @ js ''.'' @ drop (nat n) ds
      else if - 6 < n \<and> n \<le> 0 then js ''0.'' @ replicate (nat (- n)) 0x30 @ ds
      else (if length ds = 1 then ds else take 1 ds @ js ''.'' @ drop 1 ds)
           @ js ''e'' @ (if 0 \<le> n - 1 then js ''+'' else js ''-'') @ nat_digits (nat \<bar>n - 1\<bar>))"

definition positive_toString :: "rat \<Rightarrow> jsstring" where
  "positive_toString x =
     format_digits (nat_digits (nat (fst (shortest 17 1 (floor_log 10 x + 1) x))))
       (snd (shortest 17 1 (floor_log 10 x + 1) x))"

fun toString_number :: "number \<Rightarrow> jsstring" where
  "toString_number NaN = js ''NaN''"
| "toString_number PosInf = js ''Infinity''"
| "toString_number NegInf = js ''-Infinity''"
| "toString_number (Fin x) =
     (if x = 0 then js ''0''
      else if x < 0 then js ''-'' @ positive_toString (- x)
      else positive_toString x)"

definition Number_toString :: "rat \<Rightarrow> jsstring" where
  "Number_toString q = toString_number (binary64 q)"


text \<open>String concatenation with a string-valued property: \<^verbatim>\<open>'(' + x + ')'\<close>.\<close>

definition ToString :: "jsstring jsfield \<Rightarrow> jsstring" where
  "ToString x = (case x of Val s \<Rightarrow> s | Null \<Rightarrow> js ''null'' | Undefined \<Rightarrow> js ''undefined'')"

text \<open>\<^verbatim>\<open>Array.prototype.join\<close> on a list of strings.\<close>

fun join :: "jsstring \<Rightarrow> jsstring list \<Rightarrow> jsstring" where
  "join sep [] = []"
| "join sep [x] = x"
| "join sep (x # y # ys) = x @ sep @ join sep (y # ys)"

text \<open>
  A JSON value of no particular type, as the \<^verbatim>\<open>error\<close> property of an error payload is:
  its truthiness, and its conversion to a string (an array joins its elements with
  commas, \<^verbatim>\<open>null\<close> elements giving the empty string).
\<close>

datatype json = JNull | JBool bool | JNum rat | JStr jsstring | JArr "json list"
  | JObj "(jsstring \<times> json) list"

fun json_truthy :: "json \<Rightarrow> bool" where
  "json_truthy JNull = False"
| "json_truthy (JBool b) = b"
| "json_truthy (JNum q) = truthy_num (binary64 q)"
| "json_truthy (JStr s) = (s \<noteq> [])"
| "json_truthy (JArr xs) = True"
| "json_truthy (JObj fs) = True"

fun json_toString :: "json \<Rightarrow> jsstring" where
  "json_toString JNull = js ''null''"
| "json_toString (JBool b) = (if b then js ''true'' else js ''false'')"
| "json_toString (JNum q) = Number_toString q"
| "json_toString (JStr s) = s"
| "json_toString (JArr xs) =
     join (js '','') (map (\<lambda>x. case x of JNull \<Rightarrow> [] | _ \<Rightarrow> json_toString x) xs)"
| "json_toString (JObj fs) = js ''[object Object]''"

text \<open>
  \<^verbatim>\<open>String.prototype.trim\<close> removes the white space and the line terminators of
  ECMAScript from both ends.
\<close>

definition is_space :: "code_unit \<Rightarrow> bool" where
  "is_space c =
     (c \<in> set [0x9, 0xA, 0xB, 0xC, 0xD, 0x20, 0xA0, 0x1680,
               0x2000, 0x2001, 0x2002, 0x2003, 0x2004, 0x2005, 0x2006, 0x2007, 0x2008,
               0x2009, 0x200A, 0x2028, 0x2029, 0x202F, 0x205F, 0x3000, 0xFEFF])"

definition trim :: "jsstring \<Rightarrow> jsstring" where
  "trim s = rev (dropWhile is_space (rev (dropWhile is_space s)))"

text \<open>\<^verbatim>\<open>s.split(/[,;]/)\<close>: the pieces between the separators, empty pieces included.\<close>

fun split_on :: "(code_unit \<Rightarrow> bool) \<Rightarrow> jsstring \<Rightarrow> jsstring list" where
  "split_on p [] = [[]]"
| "split_on p (c # cs) =
     (if p c then [] # split_on p cs
      else (case split_on p cs of [] \<Rightarrow> [[c]] | x # xs \<Rightarrow> (c # x) # xs))"

section \<open>Formatter\<close>

text \<open>Strict comparison of a property with a string literal.\<close>

definition is_str :: "jsstring jsfield \<Rightarrow> jsstring \<Rightarrow> bool" where
  "is_str x s = (case x of Val t \<Rightarrow> t = s | Null \<Rightarrow> False | Undefined \<Rightarrow> False)"

definition riskBadgeClass :: "jsstring jsfield \<Rightarrow> jsstring" where
  "riskBadgeClass level =
     (if is_str level (js ''High'') then js ''badge-high''
      else if is_str level (js ''Medium'') then js ''badge-medium''
      else js ''badge-low'')"

definition riskValueClass :: "jsstring jsfield \<Rightarrow> jsstring" where
  "riskValueClass level =
     (if is_str level (js ''High'') then js ''risk-high''
      else if is_str level (js ''Medium'') then js ''risk-medium''
      else js ''risk-low'')"

definition impactClass :: "jsstring jsfield \<Rightarrow> jsstring" where
  "impactClass impact =
     (if is_str impact (js ''high'') then js ''high''
      else if is_str impact (js ''medium'') then js ''medium''
      else js ''low'')"

text \<open>
  \<open>escapeHtml\<close> assigns the text to \<^verbatim>\<open>textContent\<close> of a fresh element and reads
  \<^verbatim>\<open>innerHTML\<close> back. The serialisation of a text node replaces \<open>&\<close>, the no-break space,
  \<open><\<close> and \<open>>\<close> by their character references and keeps every other code unit.
\<close>

definition escape_unit :: "code_unit \<Rightarrow> jsstring" where
  "escape_unit c =
     (if c = 0x26 then js ''&amp;''
      else if c = 0xA0 then js ''&nbsp;''
      else if c = 0x3C then js ''&lt;''
      else if c = 0x3E then js ''&gt;''
      else [c])"

definition serialize_text :: "jsstring \<Rightarrow> jsstring" where
  "serialize_text s = concat (map escape_unit s)"

definition escapeHtml :: "jsstring jsfield \<Rightarrow> jsstring" where
  "escapeHtml s = (if nullish s then [] else serialize_text (ToString s))"

section \<open>Data returned by the services\<close>

record explain_factor =
  factor :: "jsstring jsfield"
  impact :: "jsstring jsfield"
  description :: "jsstring jsfield"

text \<open>
  The patient object of an upload result; the \<^verbatim>\<open>patient_input\<close> of a stored triage has the
  same shape.
\<close>

record patient =
  age :: "rat jsfield"
  gender :: "jsstring jsfield"
  symptoms :: "jsstring jsfield"
  blood_pressure_systolic :: "rat jsfield"
  blood_pressure_diastolic :: "rat jsfield"
  heart_rate :: "rat jsfield"
  temperature :: "rat jsfield"
  pre_existing_conditions :: "jsstring list jsfield"

text \<open>
  A triage result. The entries of the dashboard's \<^verbatim>\<open>recent\<close> list are triage results that
  carry their \<^verbatim>\<open>patient_input\<close>.
\<close>

record triage_result =
  risk_level :: "jsstring jsfield"
  confidence_score :: "rat jsfield"
  recommended_department :: "jsstring jsfield"
  alternative_departments :: "jsstring list jsfield"
  summary :: "jsstring jsfield"
  contributing_factors :: "explain_factor list jsfield"
  patient_input :: "patient jsfield"

record risk_counts =
  Low :: "rat jsfield"
  Medium :: "rat jsfield"
  High :: "rat jsfield"

text \<open>
  \<^verbatim>\<open>by_department\<close> is an object; it is held as the list of its entries in the order in
  which \<^verbatim>\<open>Object.keys\<close> enumerates them.
\<close>

record dashboard_summary =
  by_risk_level :: "risk_counts jsfield"
  by_department :: "(jsstring \<times> rat) list jsfield"
  total_triages :: "rat jsfield"
  recent :: "triage_result list jsfield"

section \<open>Transport client\<close>

text \<open>
  What \<^verbatim>\<open>fetch\<close> settles with: a rejection (no response at all), or a response with its
  \<^verbatim>\<open>ok\<close> flag and its body. \<^verbatim>\<open>r.json()\<close> rejects with the parser's error when the body is
  not JSON. A body that parses is \<^verbatim>\<open>null\<close>, or a value seen as its \<^verbatim>\<open>error\<close> property
  (\<open>None\<close> when it has none) and as the data the client reads from it; a number, a
  string, a boolean or an array has none of the properties the client reads and is such
  a value without them. A promise is fulfilled with the data or with \<^verbatim>\<open>null\<close>, or rejected
  with an error, of which the client only ever reads the message.
\<close>

datatype 'a body = Unparseable jsstring | JsonNull | Object "json option" 'a

datatype 'a fetch_outcome = NetworkError jsstring | Response bool "'a body"

datatype 'a settled = Fulfilled 'a | FulfilledNull | Rejected jsstring

text \<open>
  Reading a property of \<^verbatim>\<open>null\<close> throws a \<^verbatim>\<open>TypeError\<close>; its message is the engine's, here
  in the wording of V8.
\<close>

definition null_property_message :: "jsstring \<Rightarrow> jsstring" where
  "null_property_message name =
     js ''Cannot read properties of null (reading '' @ [0x27] @ name @ [0x27] @ js '')''"

text \<open>The message of \<^verbatim>\<open>new Error(j.error || generic)\<close>.\<close>

definition error_message :: "json option \<Rightarrow> jsstring \<Rightarrow> jsstring" where
  "error_message err generic =
     (case err of
        None \<Rightarrow> generic
      | Some v \<Rightarrow> (if json_truthy v then json_toString v else generic))"

definition triage :: "'a fetch_outcome \<Rightarrow> 'a settled" where
  "triage out =
     (case out of
        NetworkError m \<Rightarrow> Rejected m
      | Response ok b \<Rightarrow>
          (if \<not> ok then
             (case b of
                Unparseable m \<Rightarrow> Rejected m
              | JsonNull \<Rightarrow> Rejected (null_property_message (js ''error''))
              | Object err j \<Rightarrow> Rejected (error_message err (js ''Triage failed'')))
           else (case b of
                   Unparseable m \<Rightarrow> Rejected m
                 | JsonNull \<Rightarrow> FulfilledNull
                 | Object err j \<Rightarrow> Fulfilled j)))"



definition dashboardSummary :: "'a fetch_outcome \<Rightarrow> 'a settled" where
  "dashboardSummary out =
     (case out of
        NetworkError m \<Rightarrow> Rejected m
      | Response ok b \<Rightarrow>
          (case b of
             Unparseable m \<Rightarrow> Rejected m
           | JsonNull \<Rightarrow> FulfilledNull
           | Object err j \<Rightarrow> Fulfilled j))"


section \<open>Result renderer\<close>

text \<open>
  The local variable \<^verbatim>\<open>conf\<close> of \<open>renderTriageResult\<close>, and the text \<^verbatim>\<open>conf + '%'\<close> that
  the result panel shows for it.
\<close>

definition result_conf :: "triage_result \<Rightarrow> number" where
  "result_conf data =
     (case confidence_score data of
        Val c \<Rightarrow> Math_round (num_mul (binary64 c) (Fin 100))
      | Null \<Rightarrow> Fin 0
      | Undefined \<Rightarrow> Fin 0)"

definition result_confidence :: "triage_result \<Rightarrow> jsstring" where
  "result_confidence data = toString_number (result_conf data) @ js ''%''"

definition renderTriageResult :: "triage_result \<Rightarrow> jsstring" where
  "renderTriageResult data =
     (let risk = str_or (risk_level data) (js ''Low'');
          dept = str_or (recommended_department data) (js ''General Medicine'');
          alt = (case alternative_departments data of
                   Val a \<Rightarrow> a | Null \<Rightarrow> [] | Undefined \<Rightarrow> []);
          summary = str_or (summary data) [];
          riskValClass = riskValueClass (Val risk);
          html = [];
          html = html @ js ''<div class=\"result-row\"><span class=\"result-label\">Risk level</span><span class=\"result-value ''
                   @ riskValClass @ js ''\">'' @ escapeHtml (Val risk) @ js ''</span></div>'';
          html = html @ js ''<div class=\"result-row\"><span class=\"result-label\">Confidence</span><span class=\"result-value\">''
                   @ result_confidence data @ js ''</span></div>'';
          html = html @ js ''<div class=\"result-row\"><span class=\"result-label\">Recommended department</span></div>'';
          html = html @ js ''<p class=\"result-dept\" style=\"margin:0 0 0.75rem 0\">''
                   @ escapeHtml (Val dept) @ js ''</p>'';
          html = (if alt \<noteq> [] then
                    html @ js ''<p style=\"font-size:0.8125rem;color:var(--color-text-muted);margin:0 0 0.75rem 0\">Alternatives: ''
                      @ join (js '', '') (map (\<lambda>a. escapeHtml (Val a)) alt) @ js ''</p>''
                  else html);
          html = (if summary \<noteq> [] then
                    html @ js ''<p class=\"result-summary\">'' @ escapeHtml (Val summary) @ js ''</p>''
                  else html)
      in html)"

text \<open>The body of the \<^verbatim>\<open>forEach\<close> callback of \<open>renderExplainability\<close>: one list item.\<close>

definition explain_item :: "explain_factor \<Rightarrow> jsstring" where
  "explain_item f =
     js ''<li class=\"explain-item\"><span class=\"explain-factor\">'' @ escapeHtml (factor f)
     @ js ''</span><span class=\"explain-impact '' @ impactClass (impact f) @ js ''\">(''
     @ ToString (impact f) @ js '')</span><p class=\"explain-desc\">''
     @ escapeHtml (description f) @ js ''</p></li>''"

definition renderExplainability :: "explain_factor list jsfield \<Rightarrow> jsstring" where
  "renderExplainability factors =
     (case factors of
        Undefined \<Rightarrow> js ''<p style=\"font-size:0.875rem;color:var(--color-text-muted)\">No factors returned.</p>''
      | Null \<Rightarrow> js ''<p style=\"font-size:0.875rem;color:var(--color-text-muted)\">No factors returned.</p>''
      | Val fs \<Rightarrow>
          (if fs = [] then js ''<p style=\"font-size:0.875rem;color:var(--color-text-muted)\">No factors returned.</p>''
           else foldl (\<lambda>html f. html @ explain_item f) (js ''<ul class=\"explain-list\">'') fs
                @ js ''</ul>''))"

section \<open>Dashboard renderer\<close>

text \<open>
  The dashboard's elements are looked up by id and may be missing from the page: \<open>None\<close>
  is a missing element, \<open>Some h\<close> an element whose \<^verbatim>\<open>innerHTML\<close> is \<open>h\<close>. An assignment to
  \<^verbatim>\<open>textContent\<close> leaves the serialisation of the text as \<^verbatim>\<open>innerHTML\<close>.
\<close>

record dashboard =
  stat_low :: "jsstring option"
  stat_medium :: "jsstring option"
  stat_high :: "jsstring option"
  dept_bars :: "jsstring option"
  recent_triage_list :: "jsstring option"

definition set_textContent :: "jsstring option \<Rightarrow> jsstring \<Rightarrow> jsstring option" where
  "set_textContent el t = (case el of None \<Rightarrow> None | Some h \<Rightarrow> Some (serialize_text t))"

text \<open>The callback that renders one department; \<open>total_n\<close> is the enclosing variable
  \<^verbatim>\<open>total\<close>.\<close>

definition dept_pct :: "number \<Rightarrow> number \<Rightarrow> number" where
  "dept_pct total_n count_n =
     (if truthy_num total_n then Math_round (num_mul (num_div count_n total_n) (Fin 100))
      else Fin 0)"

definition dept_item :: "number \<Rightarrow> jsstring \<times> rat \<Rightarrow> jsstring" where
  "dept_item total_n e =
     (let dept = fst e; count_n = snd e; pct = dept_pct total_n (binary64 count_n)
      in js ''<div class=\"dept-item\"><div class=\"dept-item-name\">'' @ escapeHtml (Val dept)
         @ js ''</div><div class=\"dept-item-bar\"><div class=\"dept-item-fill\" style=\"width:''
         @ toString_number pct
         @ js ''%\"></div></div><div class=\"dept-item-count\">'' @ Number_toString count_n
         @ js ''</div></div>'')"

definition dept_bars_html :: "dashboard_summary \<Rightarrow> jsstring" where
  "dept_bars_html data =
     (let byDept = (case by_department data of Val m \<Rightarrow> m | Null \<Rightarrow> [] | Undefined \<Rightarrow> []);
          total_n = num_or (total_triages data) (Fin 1)
      in if byDept \<noteq> [] then concat (map (dept_item total_n) byDept)
         else js ''<p class=\"empty-state\" style=\"margin:0;\">No data yet.</p>'')"

text \<open>The callback that renders one recent triage, with its local variable \<open>sym\<close>.\<close>

definition recent_sym :: "triage_result \<Rightarrow> jsstring" where
  "recent_sym r =
     (case patient_input r of
        Undefined \<Rightarrow> [0x2014]
      | Null \<Rightarrow> [0x2014]
      | Val p \<Rightarrow>
          (if truthy_str (symptoms p) then
             (case symptoms p of
                Val s \<Rightarrow> take 60 s @ (if length s > 60 then [0x2026] else [])
              | Null \<Rightarrow> [0x2014]
              | Undefined \<Rightarrow> [0x2014])
           else [0x2014]))"

definition recent_confidence :: "triage_result \<Rightarrow> jsstring" where
  "recent_confidence r =
     (case confidence_score r of
        Val c \<Rightarrow>
          (if truthy_num (binary64 c)
           then toString_number (Math_round (num_mul (binary64 c) (Fin 100))) @ js ''%''
           else [])
      | Null \<Rightarrow> []
      | Undefined \<Rightarrow> [])"

definition recent_item :: "triage_result \<Rightarrow> jsstring" where
  "recent_item r =
     (let badgeClass = riskBadgeClass (risk_level r);
          riskBadge = js ''<span class=\"badge '' @ badgeClass @ js ''\">''
                        @ escapeHtml (risk_level r) @ js ''</span>'';
          sym = recent_sym r
      in js ''<div class=\"recent-item\"><div><p class=\"recent-item-dept\">''
         @ escapeHtml (recommended_department r) @ js ''</p><p class=\"recent-item-symptoms\">''
         @ escapeHtml (Val sym) @ js ''</p></div><div class=\"recent-item-meta\">'' @ riskBadge
         @ js ''<span style=\"font-size:0.75rem;color:var(--color-text-muted)\">''
         @ recent_confidence r @ js ''</span></div></div>'')"

text \<open>
  The two callbacks of \<open>loadDashboardSummary\<close>, and the function itself. When the
  summary is \<^verbatim>\<open>null\<close> the first statement of the first callback throws (it reads
  \<^verbatim>\<open>data.by_risk_level\<close>), nothing is written yet, and the second callback runs.
\<close>

definition summary_loaded :: "dashboard_summary \<Rightarrow> dashboard \<Rightarrow> dashboard" where
  "summary_loaded data d =
     (let byRisk = (case by_risk_level data of
                      Val c \<Rightarrow> c
                    | Null \<Rightarrow> \<lparr>Low = Undefined, Medium = Undefined, High = Undefined\<rparr>
                    | Undefined \<Rightarrow> \<lparr>Low = Undefined, Medium = Undefined, High = Undefined\<rparr>);
          d = d\<lparr>stat_low := set_textContent (stat_low d) (toString_number (num_or (Low byRisk) (Fin 0)))\<rparr>;
          d = d\<lparr>stat_medium := set_textContent (stat_medium d) (toString_number (num_or (Medium byRisk) (Fin 0)))\<rparr>;
          d = d\<lparr>stat_high := set_textContent (stat_high d) (toString_number (num_or (High byRisk) (Fin 0)))\<rparr>;
          d = (case dept_bars d of
                 None \<Rightarrow> d
               | Some h \<Rightarrow> d\<lparr>dept_bars := Some (dept_bars_html data)\<rparr>);
          d = (case recent_triage_list d of
                 None \<Rightarrow> d
               | Some h \<Rightarrow>
                   (case recent data of
                      Undefined \<Rightarrow> d
                    | Null \<Rightarrow> d
                    | Val rs \<Rightarrow>
                        (if rs \<noteq> [] then d\<lparr>recent_triage_list := Some (concat (map recent_item rs))\<rparr>
                         else d)))
      in d)"

definition summary_failed :: "dashboard \<Rightarrow> dashboard" where
  "summary_failed d =
     (case recent_triage_list d of
        None \<Rightarrow> d
      | Some h \<Rightarrow> d\<lparr>recent_triage_list := Some (js ''<p class=\"empty-state text-slate-500\">Could not load summary.</p>'')\<rparr>)"

definition loadDashboardSummary :: "dashboard_summary fetch_outcome \<Rightarrow> dashboard \<Rightarrow> dashboard" where
  "loadDashboardSummary out d =
     (case dashboardSummary out of
        Fulfilled data \<Rightarrow> summary_loaded data d
      | FulfilledNull \<Rightarrow> summary_failed d
      | Rejected m \<Rightarrow> summary_failed d)"

section \<open>Form population\<close>

text \<open>
  The seven controls of the triage form, each with the string it holds as its
  \<^verbatim>\<open>value\<close>. The page that declares them is not part of the script; a control is taken
  to exist and to keep the string assigned to it.
\<close>

record form =
  age_value :: jsstring
  gender_value :: jsstring
  symptoms_value :: jsstring
  blood_pressure_value :: jsstring
  heart_rate_value :: jsstring
  temperature_value :: jsstring
  pre_existing_conditions_value :: jsstring

text \<open>The conversion to a string of a number-valued property.\<close>

definition ToString_num :: "rat jsfield \<Rightarrow> jsstring" where
  "ToString_num x =
     (case x of Val n \<Rightarrow> Number_toString n | Null \<Rightarrow> js ''null'' | Undefined \<Rightarrow> js ''undefined'')"

definition fillFormFromPatient :: "patient jsfield \<Rightarrow> form \<Rightarrow> form" where
  "fillFormFromPatient p0 f =
     (case p0 of
        Undefined \<Rightarrow> f
      | Null \<Rightarrow> f
      | Val p \<Rightarrow>
          (let f = (if \<not> nullish (age p) then f\<lparr>age_value := ToString_num (age p)\<rparr> else f);
               f = (if truthy_str (gender p) then f\<lparr>gender_value := ToString (gender p)\<rparr> else f);
               f = (if truthy_str (symptoms p) then f\<lparr>symptoms_value := ToString (symptoms p)\<rparr> else f);
               f = (if \<not> nullish (blood_pressure_systolic p) \<and> \<not> nullish (blood_pressure_diastolic p)
                    then f\<lparr>blood_pressure_value :=
                             ToString_num (blood_pressure_systolic p) @ js ''/''
                             @ ToString_num (blood_pressure_diastolic p)\<rparr>
                    else if \<not> nullish (blood_pressure_systolic p)
                    then f\<lparr>blood_pressure_value := ToString_num (blood_pressure_systolic p)\<rparr>
                    else f);
               f = (if \<not> nullish (heart_rate p) then f\<lparr>heart_rate_value := ToString_num (heart_rate p)\<rparr> else f);
               f = (if \<not> nullish (temperature p) then f\<lparr>temperature_value := ToString_num (temperature p)\<rparr> else f);
               f = (case pre_existing_conditions p of
                      Undefined \<Rightarrow> f
                    | Null \<Rightarrow> f
                    | Val cs \<Rightarrow>
                        (if cs \<noteq> [] then f\<lparr>pre_existing_conditions_value := join (js '', '') cs\<rparr>
                         else f))
           in f))"

section \<open>Triage submission lane\<close>

text \<open>
  The payload of a triage call. Its numeric fields are kept as the calls that produce
  them: \<^verbatim>\<open>parseInt(s, 10)\<close>, \<^verbatim>\<open>parseFloat(s)\<close> or a literal.
\<close>

datatype number_expr = ParseInt jsstring | ParseFloat jsstring | Literal rat

record payload =
  req_age :: number_expr
  req_gender :: jsstring
  req_symptoms :: jsstring
  req_blood_pressure :: "jsstring jsfield"
  req_heart_rate :: "number_expr jsfield"
  req_temperature :: "number_expr jsfield"
  req_pre_existing_conditions :: "jsstring list"

text \<open>
  What the lane reads and writes: the form, the submit button (its \<^verbatim>\<open>disabled\<close> flag and its
  content as \<^verbatim>\<open>innerHTML\<close>), the two panels (content and the \<^verbatim>\<open>hidden\<close> class), the alerts
  shown so far, the triage calls issued so far and the number of summary fetches started.
\<close>

record page =
  triage_form :: form
  btn_disabled :: bool
  btn_html :: jsstring
  result_content :: jsstring
  explain_content :: jsstring
  result_hidden :: bool
  explain_hidden :: bool
  alerts :: "jsstring list"
  triage_calls :: "payload list"
  summary_fetches :: nat

definition submit_label :: jsstring where
  "submit_label = js ''<span class=\"material-symbols-outlined\" style=\"font-size:1.25rem\">medical_services</span> Run AI triage''"

definition analyzing_label :: jsstring where
  "analyzing_label = serialize_text (js ''Analyzing'' @ [0x2026])"

definition is_separator :: "code_unit \<Rightarrow> bool" where
  "is_separator c = (c \<in> set [0x2C, 0x3B])"

text \<open>The \<^verbatim>\<open>submit\<close> listener of the form, up to and including the call of \<^verbatim>\<open>API.triage\<close>.\<close>

definition on_submit :: "page \<Rightarrow> page" where
  "on_submit pg =
     (let age = age_value (triage_form pg);
          gender = gender_value (triage_form pg);
          symptoms = trim (symptoms_value (triage_form pg));
          blood_pressure = trim (blood_pressure_value (triage_form pg));
          heart_rate = heart_rate_value (triage_form pg);
          temperature = temperature_value (triage_form pg);
          conditions = pre_existing_conditions_value (triage_form pg);
          pre_existing_conditions =
            (if conditions \<noteq> [] then filter (\<lambda>s. s \<noteq> []) (map trim (split_on is_separator conditions))
             else [])
      in if symptoms = [] then pg\<lparr>alerts := alerts pg @ [js ''Please enter symptoms.'']\<rparr>
         else pg\<lparr>btn_disabled := True,
                 btn_html := analyzing_label,
                 triage_calls := triage_calls pg @
                   [\<lparr>req_age = (if age \<noteq> [] then ParseInt age else Literal 35),
                     req_gender = (if gender \<noteq> [] then gender else js ''Unknown''),
                     req_symptoms = symptoms,
                     req_blood_pressure = (if blood_pressure \<noteq> [] then Val blood_pressure else Undefined),
                     req_heart_rate = (if heart_rate \<noteq> [] then Val (ParseInt heart_rate) else Undefined),
                     req_temperature = (if temperature \<noteq> [] then Val (ParseFloat temperature) else Undefined),
                     req_pre_existing_conditions = pre_existing_conditions\<rparr>]\<rparr>)"

text \<open>
  The three callbacks chained on the promise of the call. When the promise is fulfilled
  with \<^verbatim>\<open>null\<close>, \<open>renderTriageResult\<close> throws on its first statement (it reads
  \<^verbatim>\<open>data.risk_level\<close>) before anything is written, and the second callback runs with
  that error.
\<close>

definition triage_then :: "triage_result \<Rightarrow> page \<Rightarrow> page" where
  "triage_then data pg =
     pg\<lparr>result_content := renderTriageResult data,
        explain_content := renderExplainability (contributing_factors data),
        result_hidden := False,
        explain_hidden := False,
        summary_fetches := Suc (summary_fetches pg)\<rparr>"

definition triage_catch :: "jsstring \<Rightarrow> page \<Rightarrow> page" where
  "triage_catch message pg =
     pg\<lparr>alerts := alerts pg @ [if message \<noteq> [] then message else js ''Triage request failed.'']\<rparr>"

definition triage_finally :: "page \<Rightarrow> page" where
  "triage_finally pg = pg\<lparr>btn_disabled := False, btn_html := submit_label\<rparr>"

definition triage_settled :: "triage_result settled \<Rightarrow> page \<Rightarrow> page" where
  "triage_settled s pg =
     triage_finally
       (case s of
          Fulfilled data \<Rightarrow> triage_then data pg
        | FulfilledNull \<Rightarrow> triage_catch (null_property_message (js ''risk_level'')) pg
        | Rejected m \<Rightarrow> triage_catch m pg)"

text \<open>
  One submission from the event to the settlement of its call, when a call was issued:
  \<open>out\<close> is what \<^verbatim>\<open>fetch\<close> settles with.
\<close>

definition submission :: "triage_result fetch_outcome \<Rightarrow> page \<Rightarrow> page" where
  "submission out pg =
     (if trim (symptoms_value (triage_form pg)) = [] then on_submit pg
      else triage_settled (triage out) (on_submit pg))"

section \<open>Sample inputs\<close>

text \<open>Concrete forms, pages, patients and service answers, on which the properties are run.\<close>

definition form0 :: form where
  "form0 = \<lparr>age_value = js ''40'', gender_value = js ''Female'', symptoms_value = js ''cough'',
       blood_pressure_value = js ''120/80'', heart_rate_value = js ''70'',
       temperature_value = js ''98.6'', pre_existing_conditions_value = js ''asthma''\<rparr>"

definition patient4 :: patient where
  "patient4 = \<lparr>age = Val 52, gender = Undefined, symptoms = Undefined,
       blood_pressure_systolic = Val 130, blood_pressure_diastolic = Val 85,
       heart_rate = Undefined, temperature = Undefined, pre_existing_conditions = Undefined\<rparr>"

definition patient_zero :: "rat jsfield \<Rightarrow> patient" where
  "patient_zero d = \<lparr>age = Val 0, gender = Val [], symptoms = Val [],
       blood_pressure_systolic = Val 0, blood_pressure_diastolic = d,
       heart_rate = Val 0, temperature = Val 0, pre_existing_conditions = Val []\<rparr>"

definition page_with :: "jsstring \<Rightarrow> page" where
  "page_with s =
     \<lparr>triage_form = \<lparr>age_value = js ''40'', gender_value = [], symptoms_value = s,
        blood_pressure_value = [], heart_rate_value = [], temperature_value = [],
        pre_existing_conditions_value = []\<rparr>,
      btn_disabled = False, btn_html = submit_label, result_content = [], explain_content = [],
      result_hidden = True, explain_hidden = True, alerts = [], triage_calls = [],
      summary_fetches = 0\<rparr>"

definition with_symptoms :: "jsstring jsfield \<Rightarrow> triage_result" where
  "with_symptoms s =
     \<lparr>risk_level = Val (js ''Low''), confidence_score = Val (1 / 2),
      recommended_department = Val (js ''ER''), alternative_departments = Undefined,
      summary = Undefined, contributing_factors = Undefined,
      patient_input = Val \<lparr>age = Undefined, gender = Undefined, symptoms = s,
        blood_pressure_systolic = Undefined, blood_pressure_diastolic = Undefined,
        heart_rate = Undefined, temperature = Undefined, pre_existing_conditions = Undefined\<rparr>\<rparr>"

definition with_confidence :: "rat jsfield \<Rightarrow> triage_result" where
  "with_confidence c =
     \<lparr>risk_level = Val (js ''High''), confidence_score = c,
      recommended_department = Val (js ''Cardiology''), alternative_departments = Undefined,
      summary = Undefined, contributing_factors = Val [], patient_input = Undefined\<rparr>"

definition summary5 :: dashboard_summary where
  "summary5 = \<lparr>by_risk_level = Undefined,
       by_department = Val [(js ''ER'', 3), (js ''Cardiology'', 1)],
       total_triages = Val 4, recent = Undefined\<rparr>"

definition summary29 :: dashboard_summary where
  "summary29 = \<lparr>by_risk_level = Undefined, by_department = Val [(js ''ER'', 29)],
       total_triages = Val 200, recent = Undefined\<rparr>"

definition summary23 :: dashboard_summary where
  "summary23 = \<lparr>by_risk_level = Undefined, by_department = Val [(js ''ER'', 23)],
       total_triages = Val 40, recent = Undefined\<rparr>"

definition no_summary :: dashboard_summary where
  "no_summary = \<lparr>by_risk_level = Undefined, by_department = Undefined,
       total_triages = Undefined, recent = Undefined\<rparr>"

definition dash0 :: dashboard where
  "dash0 = \<lparr>stat_low = Some (js ''3''), stat_medium = Some (js ''1''), stat_high = None,
      dept_bars = Some (js ''<p>old</p>''), recent_triage_list = Some (js ''<p>old feed</p>'')\<rparr>"

definition dash_all :: dashboard where
  "dash_all = \<lparr>stat_low = Some (js ''3''), stat_medium = Some (js ''1''), stat_high = Some (js ''2''),
      dept_bars = Some (js ''<p>old</p>''), recent_triage_list = Some (js ''<p>old feed</p>'')\<rparr>"

section \<open>Properties\<close>

subsection \<open>Numbers and labels\<close>

text \<open>
  The equations with which the number model is evaluated on numerals, and the values of
  the numbers that the samples use.
\<close>

lemma floor_rat_numeral:
  "\<lfloor>numeral a / numeral b :: rat\<rfloor> = numeral a div numeral b"
  by (metis floor_divide_of_int_eq of_int_numeral)

lemmas number_eval = binary64_def nearest_def quantum_def floor_log_def power_of_def
  round_half_even_def represents_def lower_def prefer_lower_def format_digits_def
  positive_toString_def Number_toString_def floor_rat_numeral js_def

lemma binary64_not_NaN: "binary64 q \<noteq> NaN"
  by (simp add: binary64_def)

lemma truthy_num_binary64: "truthy_num (binary64 q) = (binary64 q \<noteq> Fin 0)"
  by (cases "binary64 q") (simp_all add: binary64_not_NaN)

lemma binary64_small:
  "binary64 0 = Fin 0" "binary64 1 = Fin 1" "binary64 3 = Fin 3" "binary64 4 = Fin 4"
  "binary64 23 = Fin 23" "binary64 29 = Fin 29" "binary64 40 = Fin 40" "binary64 52 = Fin 52"
  "binary64 200 = Fin 200"
  by (simp_all add: number_eval)

lemma Number_toString_0: "Number_toString 0 = js ''0''"
  by (simp add: number_eval)

lemma Number_toString_small:
  "Number_toString 1 = js ''1''" "Number_toString 3 = js ''3''" "Number_toString 23 = js ''23''"
  "Number_toString 29 = js ''29''"
  "Number_toString 52 = js ''52''" "Number_toString 85 = js ''85''"
  "Number_toString 130 = js ''130''"
  by (simp_all add: number_eval)

lemma toString_percent:
  "toString_number (Fin 0) = js ''0''" "toString_number (Fin 2) = js ''2''"
  "toString_number (Fin 14) = js ''14''" "toString_number (Fin 25) = js ''25''"
  "toString_number (Fin 57) = js ''57''" "toString_number (Fin 75) = js ''75''"
  "toString_number (Fin 87) = js ''87''"
  by (simp_all add: number_eval)

lemma positive_toString_percent:
  "positive_toString 2 = js ''2''" "positive_toString 14 = js ''14''"
  "positive_toString 25 = js ''25''" "positive_toString 57 = js ''57''"
  "positive_toString 75 = js ''75''" "positive_toString 87 = js ''87''"
  by (simp_all add: number_eval)

lemma percent_values:
  "Math_round (num_mul (binary64 (87 / 100)) (Fin 100)) = Fin 87"
  "Math_round (num_mul (binary64 (23 / 40)) (Fin 100)) = Fin 57"
  "Math_round (num_mul (binary64 (1080863910568919 / 72057594037927936)) (Fin 100)) = Fin 2"
  "Math_round (num_mul (binary64 (3 / 4)) (Fin 100)) = Fin 75"
  "Math_round (num_mul (binary64 (1 / 4)) (Fin 100)) = Fin 25"
  "Math_round (num_mul (binary64 (29 / 200)) (Fin 100)) = Fin 14"
  by (simp_all add: number_eval)

lemma Math_round_0: "Math_round (Fin 0) = Fin 0"
  by (simp add: floor_eq_iff)

lemma binary64_scores:
  "binary64 (87 / 100) \<noteq> Fin 0" "binary64 (23 / 40) \<noteq> Fin 0"
  by (simp_all add: number_eval)

lemma analyzing_label_eq: "analyzing_label = js ''Analyzing'' @ [0x2026]"
  by (simp add: analyzing_label_def serialize_text_def escape_unit_def js_def)

lemma labels_differ: "analyzing_label \<noteq> submit_label"
  by (simp add: analyzing_label_eq submit_label_def js_def)

lemma trim_chest_pain: "trim (js '' chest pain '') = js ''chest pain''"
  by (simp add: trim_def is_space_def js_def)

lemma trim_blank: "trim (js ''  '') = []"
  by (simp add: trim_def is_space_def js_def)

subsection \<open>Escaping\<close>

text \<open>What \<open>escapeHtml\<close> returns never holds \<open><\<close> or \<open>>\<close>, and is empty for a missing value.\<close>

lemma serialize_text_no_markup:
  "0x3C \<notin> set (serialize_text s) \<and> 0x3E \<notin> set (serialize_text s)"
  by (induction s) (auto simp: serialize_text_def escape_unit_def js_def)

lemma escapeHtml_no_markup:
  "0x3C \<notin> set (escapeHtml x) \<and> 0x3E \<notin> set (escapeHtml x)"
  by (simp add: escapeHtml_def serialize_text_no_markup)

lemma escapeHtml_nullish:
  "escapeHtml Null = [] \<and> escapeHtml Undefined = []"
  by (simp add: escapeHtml_def nullish_def)

text \<open>
  Claim C1: every text value that flows into markup is escaped, the impact label of an
  explanation factor included, and a missing value renders as the empty string.
  \<open>renderExplainability\<close> escapes the factor and the description of an item, and
  concatenates the impact label as it is: for the label
  \<^verbatim>\<open><img src=x onerror=alert(1)>\<close> the markup holds the label unescaped, where
  \<open>escapeHtml\<close> would have given \<^verbatim>\<open>&lt;img src=x onerror=alert(1)&gt;\<close>; and a factor
  without a label shows \<^verbatim>\<open>(undefined)\<close>, not the empty string.
\<close>

theorem renderExplainability_impact_unescaped:
  "renderExplainability
     (Val [\<lparr>factor = Val (js ''BP''),
            impact = Val (js ''<img src=x onerror=alert(1)>''),
            description = Val (js ''d'')\<rparr>])
   = js ''<ul class=\"explain-list\"><li class=\"explain-item\"><span class=\"explain-factor\">BP</span><span class=\"explain-impact low\">(<img src=x onerror=alert(1)>)</span><p class=\"explain-desc\">d</p></li></ul>''
   \<and> escapeHtml (Val (js ''<img src=x onerror=alert(1)>'')) = js ''&lt;img src=x onerror=alert(1)&gt;''
   \<and> renderExplainability
     (Val [\<lparr>factor = Val (js ''BP''), impact = Undefined, description = Val (js ''d'')\<rparr>])
   = js ''<ul class=\"explain-list\"><li class=\"explain-item\"><span class=\"explain-factor\">BP</span><span class=\"explain-impact low\">(undefined)</span><p class=\"explain-desc\">d</p></li></ul>''"
  by (simp add: renderExplainability_def explain_item_def escapeHtml_def nullish_def ToString_def
       serialize_text_def escape_unit_def impactClass_def is_str_def js_def)

subsection \<open>Transport client\<close>




subsection \<open>Triage submission lane\<close>

text \<open>
  Claim C3: once the call is issued the submit button is disabled and shows the
  in-progress label; however the call settles, fulfilled or rejected, the button is
  enabled again and shows the label \<open>submit_label\<close>, which is the label it had when it
  showed \<open>submit_label\<close> before the submission.
\<close>

theorem submit_button_restored:
  assumes "trim (symptoms_value (triage_form pg)) \<noteq> []"
  shows "btn_disabled (on_submit pg) \<and> btn_html (on_submit pg) = analyzing_label
    \<and> analyzing_label \<noteq> submit_label
    \<and> (\<exists>call. triage_calls (on_submit pg) = triage_calls pg @ [call])
    \<and> \<not> btn_disabled (triage_settled s (on_submit pg))
    \<and> btn_html (triage_settled s (on_submit pg)) = submit_label
    \<and> submission out pg = triage_settled (triage out) (on_submit pg)
    \<and> (btn_html pg = submit_label \<longrightarrow>
         \<not> btn_disabled (submission out pg) \<and> btn_html (submission out pg) = btn_html pg)"
proof -
  have a: "btn_disabled (on_submit pg) \<and> btn_html (on_submit pg) = analyzing_label
      \<and> (\<exists>call. triage_calls (on_submit pg) = triage_calls pg @ [call])"
    using assms by (simp add: on_submit_def Let_def)
  have b: "\<And>q. \<not> btn_disabled (triage_settled s q) \<and> btn_html (triage_settled s q) = submit_label"
    by (simp add: triage_settled_def triage_finally_def)
  have b': "\<And>q. \<not> btn_disabled (triage_settled (triage out) q)
      \<and> btn_html (triage_settled (triage out) q) = submit_label"
    by (simp add: triage_settled_def triage_finally_def)
  have c: "submission out pg = triage_settled (triage out) (on_submit pg)"
    using assms by (simp add: submission_def)
  show ?thesis using a b b' c labels_differ by simp
qed

text \<open>
  A submission of \<^verbatim>\<open>chest pain\<close>: while the call is pending the button is disabled and
  shows \<^verbatim>\<open>Analyzing\<close> with the ellipsis; after a 503 with a message, and after a success,
  it is enabled and shows what it showed before.
\<close>

theorem submit_button_restored_witness:
  "btn_disabled (on_submit (page_with (js '' chest pain '')))
   \<and> btn_html (on_submit (page_with (js '' chest pain ''))) = js ''Analyzing'' @ [0x2026]
   \<and> \<not> btn_disabled (submission (Response False (Object (Some (JStr (js ''model unavailable''))) (with_confidence Null)))
          (page_with (js '' chest pain '')))
   \<and> btn_html (submission (Response False (Object (Some (JStr (js ''model unavailable''))) (with_confidence Null)))
          (page_with (js '' chest pain ''))) = btn_html (page_with (js '' chest pain ''))
   \<and> \<not> btn_disabled (submission (Response True (Object None (with_confidence (Val (87 / 100)))))
          (page_with (js '' chest pain '')))
   \<and> btn_html (submission (Response True (Object None (with_confidence (Val (87 / 100)))))
          (page_with (js '' chest pain ''))) = btn_html (page_with (js '' chest pain ''))"
proof -
  have h: "trim (symptoms_value (triage_form (page_with (js '' chest pain '')))) \<noteq> []"
    by (simp add: page_with_def trim_chest_pain) (simp add: js_def)
  have l: "btn_html (page_with (js '' chest pain '')) = submit_label"
    by (simp add: page_with_def)
  show ?thesis
    using submit_button_restored [OF h, of _ "Response False (Object (Some (JStr (js ''model unavailable''))) (with_confidence Null))"]
      submit_button_restored [OF h, of _ "Response True (Object None (with_confidence (Val (87 / 100))))"]
      l analyzing_label_eq
    by simp
qed

text \<open>
  Claim C7: a submission whose symptoms are empty after trimming shows the validation
  notice and changes nothing else, no call being issued and none pending; a submission
  with symptoms issues one triage call, with the trimmed symptoms, and shows no notice.
\<close>

theorem empty_symptoms_rejected:
  "(trim (symptoms_value (triage_form pg)) = [] \<longrightarrow>
      on_submit pg = pg\<lparr>alerts := alerts pg @ [js ''Please enter symptoms.'']\<rparr>
      \<and> triage_calls (on_submit pg) = triage_calls pg
      \<and> submission out pg = on_submit pg)
   \<and> (trim (symptoms_value (triage_form pg)) \<noteq> [] \<longrightarrow>
      (\<exists>call. triage_calls (on_submit pg) = triage_calls pg @ [call]
          \<and> req_symptoms call = trim (symptoms_value (triage_form pg)))
      \<and> alerts (on_submit pg) = alerts pg)"
  by (simp add: on_submit_def submission_def Let_def)

text \<open>A form whose symptoms are two blanks, and a form with \<^verbatim>\<open>chest pain\<close>.\<close>

theorem empty_symptoms_rejected_witness:
  "submission (NetworkError []) (page_with (js ''  '')) =
     (page_with (js ''  ''))\<lparr>alerts := [js ''Please enter symptoms.'']\<rparr>
   \<and> triage_calls (submission (NetworkError []) (page_with (js ''  ''))) = []
   \<and> map req_symptoms (triage_calls (on_submit (page_with (js '' chest pain '')))) = [js ''chest pain'']
   \<and> alerts (on_submit (page_with (js '' chest pain ''))) = []"
proof -
  have e: "trim (symptoms_value (triage_form (page_with (js ''  '')))) = []"
    by (simp add: page_with_def trim_blank)
  have h: "trim (symptoms_value (triage_form (page_with (js '' chest pain '')))) = js ''chest pain''"
    by (simp add: page_with_def trim_chest_pain)
  have n: "js ''chest pain'' \<noteq> []"
    by (simp add: js_def)
  have a: "alerts (page_with (js ''  '')) = [] \<and> triage_calls (page_with (js ''  '')) = []
      \<and> alerts (page_with (js '' chest pain '')) = [] \<and> triage_calls (page_with (js '' chest pain '')) = []"
    by (simp add: page_with_def)
  show ?thesis
    using empty_symptoms_rejected [of "page_with (js ''  '')" "NetworkError []"]
      empty_symptoms_rejected [of "page_with (js '' chest pain '')" "NetworkError []"] e h n a
    by auto
qed

subsection \<open>Confidence percentage\<close>

text \<open>
  Claim C4, as the client has it: for every confidence score the result panel shows
  \<^verbatim>\<open>Math.round\<close> of the product of the score and 100, the product being the binary64
  one (the exact product of the two doubles, rounded to the nearest double), followed by
  the percent sign; the recent feed of the dashboard shows the same text for a score
  that is not zero; when the score is missing the result panel shows \<^verbatim>\<open>0%\<close> and the
  recent feed shows the empty string. What the recent feed shows for the score zero is
  no part of this statement.
\<close>

theorem confidence_percentage:
  "(confidence_score r = Val c \<longrightarrow>
      result_confidence r
        = toString_number (Math_round (num_mul (binary64 c) (Fin 100))) @ js ''%'')
   \<and> (confidence_score r = Val c \<and> binary64 c \<noteq> Fin 0 \<longrightarrow>
      recent_confidence r
        = toString_number (Math_round (num_mul (binary64 c) (Fin 100))) @ js ''%'')
   \<and> (nullish (confidence_score r) \<longrightarrow>
      result_confidence r = js ''0%'' \<and> recent_confidence r = [])"
proof -
  have a: "confidence_score r = Val c \<Longrightarrow>
      result_confidence r
        = toString_number (Math_round (num_mul (binary64 c) (Fin 100))) @ js ''%''"
    by (simp add: result_confidence_def result_conf_def)
  have b: "confidence_score r = Val c \<Longrightarrow> binary64 c \<noteq> Fin 0 \<Longrightarrow>
      recent_confidence r
        = toString_number (Math_round (num_mul (binary64 c) (Fin 100))) @ js ''%''"
    by (simp add: recent_confidence_def truthy_num_binary64)
  have n: "nullish (confidence_score r) \<Longrightarrow>
      result_confidence r = js ''0%'' \<and> recent_confidence r = []"
    by (simp add: nullish_def result_confidence_def result_conf_def recent_confidence_def
          js_def split: jsfield.splits)
  show ?thesis using a b n by blast
qed

text \<open>The scores 0.87 and 0.575 (23/40), and a result without a score.\<close>

theorem confidence_percentage_witness:
  "result_confidence (with_confidence (Val (87 / 100))) = js ''87%''
   \<and> recent_confidence (with_confidence (Val (87 / 100))) = js ''87%''
   \<and> result_confidence (with_confidence (Val (23 / 40))) = js ''57%''
   \<and> recent_confidence (with_confidence (Val (23 / 40))) = js ''57%''
   \<and> result_confidence (with_confidence Undefined) = js ''0%''
   \<and> recent_confidence (with_confidence Undefined) = []"
  using confidence_percentage [of "with_confidence (Val (87 / 100))" "87 / 100"]
    confidence_percentage [of "with_confidence (Val (23 / 40))" "23 / 40"]
    confidence_percentage [of "with_confidence Undefined" 0]
  by (simp add: with_confidence_def nullish_def percent_values binary64_scores toString_percent
        positive_toString_percent js_def)

text \<open>
  Claim C4 as it was stated, with the product and the rounding taken exactly, fails
  inside \<open>[0,1]\<close>, whether a score is read as the decimal of the data or as the double
  the client holds. The score 0.575 has the exact product 57.5, whose nearest integer is
  58 with a tie going up and with a tie going to the even integer alike; the binary64
  product of its double is 57.49999999999999, and both contexts show \<^verbatim>\<open>57%\<close>. The
  score that is exactly the double next to 0.015 has an exact product below 1.5, which
  rounds to 1; its binary64 product is 1.5, and the panel shows \<^verbatim>\<open>2%\<close>.
\<close>

theorem exact_rounding_counterexample:
  "(0::rat) \<le> 23 / 40 \<and> (23 / 40 :: rat) \<le> 1
   \<and> round (23 / 40 * 100 :: rat) = 58
   \<and> round_half_even (23 / 40 * 100) = 58
   \<and> result_confidence (with_confidence (Val (23 / 40))) = js ''57%''
   \<and> recent_confidence (with_confidence (Val (23 / 40))) = js ''57%''
   \<and> (0::rat) \<le> 1080863910568919 / 72057594037927936
   \<and> (1080863910568919 / 72057594037927936 :: rat) \<le> 1
   \<and> binary64 (1080863910568919 / 72057594037927936) = Fin (1080863910568919 / 72057594037927936)
   \<and> round (1080863910568919 / 72057594037927936 * 100 :: rat) = 1
   \<and> round_half_even (1080863910568919 / 72057594037927936 * 100) = 1
   \<and> result_confidence (with_confidence (Val (1080863910568919 / 72057594037927936))) = js ''2%''"
proof -
  have r: "round (23 / 40 * 100 :: rat) = 58"
    "round (1080863910568919 / 72057594037927936 * 100 :: rat) = 1"
    by (simp_all add: round_def floor_rat_numeral)
  have e: "round_half_even (23 / 40 * 100) = 58"
    "round_half_even (1080863910568919 / 72057594037927936 * 100) = 1"
    by (simp_all add: round_half_even_def floor_rat_numeral)
  have d: "binary64 (1080863910568919 / 72057594037927936) = Fin (1080863910568919 / 72057594037927936)"
    by (simp add: number_eval)
  have c: "result_confidence (with_confidence (Val (23 / 40))) = js ''57%''"
    "recent_confidence (with_confidence (Val (23 / 40))) = js ''57%''"
    "result_confidence (with_confidence (Val (1080863910568919 / 72057594037927936))) = js ''2%''"
    by (simp_all add: result_confidence_def result_conf_def recent_confidence_def
          with_confidence_def percent_values binary64_scores truthy_num_binary64 toString_percent
          positive_toString_percent js_def)
  show ?thesis using r e d c by simp
qed

text \<open>
  At the score zero the two contexts part: line 109 compares the score with \<^verbatim>\<open>null\<close> and
  the panel shows \<^verbatim>\<open>0%\<close>; line 91 tests the score for truthiness and the feed shows
  nothing.
\<close>

lemma zero_confidence:
  "result_confidence (with_confidence (Val 0)) = js ''0%''
   \<and> recent_confidence (with_confidence (Val 0)) = []"
  by (simp add: result_confidence_def result_conf_def recent_confidence_def with_confidence_def
        binary64_small Math_round_0 js_def del: Math_round.simps)

subsection \<open>Form population\<close>

text \<open>
  The statements of \<open>fillFormFromPatient\<close> are followed one at a time: each touches one
  control, and the value of every control after the last one is read off the chain.
\<close>

lemma fillFormFromPatient_Val:
  "age_value (fillFormFromPatient (Val p) f) =
     (if \<not> nullish (age p) then ToString_num (age p) else age_value f)"
  "gender_value (fillFormFromPatient (Val p) f) =
     (if truthy_str (gender p) then ToString (gender p) else gender_value f)"
  "symptoms_value (fillFormFromPatient (Val p) f) =
     (if truthy_str (symptoms p) then ToString (symptoms p) else symptoms_value f)"
  "blood_pressure_value (fillFormFromPatient (Val p) f) =
     (if \<not> nullish (blood_pressure_systolic p) \<and> \<not> nullish (blood_pressure_diastolic p)
      then ToString_num (blood_pressure_systolic p) @ js ''/'' @ ToString_num (blood_pressure_diastolic p)
      else if \<not> nullish (blood_pressure_systolic p) then ToString_num (blood_pressure_systolic p)
      else blood_pressure_value f)"
  "heart_rate_value (fillFormFromPatient (Val p) f) =
     (if \<not> nullish (heart_rate p) then ToString_num (heart_rate p) else heart_rate_value f)"
  "temperature_value (fillFormFromPatient (Val p) f) =
     (if \<not> nullish (temperature p) then ToString_num (temperature p) else temperature_value f)"
  "pre_existing_conditions_value (fillFormFromPatient (Val p) f) =
     (case pre_existing_conditions p of
        Undefined \<Rightarrow> pre_existing_conditions_value f
      | Null \<Rightarrow> pre_existing_conditions_value f
      | Val cs \<Rightarrow> (if cs \<noteq> [] then join (js '', '') cs else pre_existing_conditions_value f))"
proof -
  define f1 where "f1 = (if \<not> nullish (age p) then f\<lparr>age_value := ToString_num (age p)\<rparr> else f)"
  define f2 where "f2 = (if truthy_str (gender p) then f1\<lparr>gender_value := ToString (gender p)\<rparr> else f1)"
  define f3 where "f3 = (if truthy_str (symptoms p) then f2\<lparr>symptoms_value := ToString (symptoms p)\<rparr> else f2)"
  define f4 where "f4 =
    (if \<not> nullish (blood_pressure_systolic p) \<and> \<not> nullish (blood_pressure_diastolic p)
     then f3\<lparr>blood_pressure_value :=
              ToString_num (blood_pressure_systolic p) @ js ''/''
              @ ToString_num (blood_pressure_diastolic p)\<rparr>
     else if \<not> nullish (blood_pressure_systolic p)
     then f3\<lparr>blood_pressure_value := ToString_num (blood_pressure_systolic p)\<rparr>
     else f3)"
  define f5 where "f5 = (if \<not> nullish (heart_rate p) then f4\<lparr>heart_rate_value := ToString_num (heart_rate p)\<rparr> else f4)"
  define f6 where "f6 = (if \<not> nullish (temperature p) then f5\<lparr>temperature_value := ToString_num (temperature p)\<rparr> else f5)"
  define f7 where "f7 =
    (case pre_existing_conditions p of
       Undefined \<Rightarrow> f6
     | Null \<Rightarrow> f6
     | Val cs \<Rightarrow> (if cs \<noteq> [] then f6\<lparr>pre_existing_conditions_value := join (js '', '') cs\<rparr> else f6))"
  have eq: "fillFormFromPatient (Val p) f = f7"
    unfolding fillFormFromPatient_def Let_def jsfield.case f7_def f6_def f5_def f4_def f3_def f2_def f1_def
    by (rule refl)
  have s1: "age_value f1 = (if \<not> nullish (age p) then ToString_num (age p) else age_value f)"
    "gender_value f1 = gender_value f" "symptoms_value f1 = symptoms_value f"
    "blood_pressure_value f1 = blood_pressure_value f" "heart_rate_value f1 = heart_rate_value f"
    "temperature_value f1 = temperature_value f"
    "pre_existing_conditions_value f1 = pre_existing_conditions_value f"
    by (simp_all add: f1_def)
  have s2: "age_value f2 = age_value f1"
    "gender_value f2 = (if truthy_str (gender p) then ToString (gender p) else gender_value f1)"
    "symptoms_value f2 = symptoms_value f1"
    "blood_pressure_value f2 = blood_pressure_value f1" "heart_rate_value f2 = heart_rate_value f1"
    "temperature_value f2 = temperature_value f1"
    "pre_existing_conditions_value f2 = pre_existing_conditions_value f1"
    by (simp_all add: f2_def)
  have s3: "age_value f3 = age_value f2" "gender_value f3 = gender_value f2"
    "symptoms_value f3 = (if truthy_str (symptoms p) then ToString (symptoms p) else symptoms_value f2)"
    "blood_pressure_value f3 = blood_pressure_value f2" "heart_rate_value f3 = heart_rate_value f2"
    "temperature_value f3 = temperature_value f2"
    "pre_existing_conditions_value f3 = pre_existing_conditions_value f2"
    by (simp_all add: f3_def)
  have s4: "age_value f4 = age_value f3" "gender_value f4 = gender_value f3"
    "symptoms_value f4 = symptoms_value f3"
    "blood_pressure_value f4 =
       (if \<not> nullish (blood_pressure_systolic p) \<and> \<not> nullish (blood_pressure_diastolic p)
        then ToString_num (blood_pressure_systolic p) @ js ''/'' @ ToString_num (blood_pressure_diastolic p)
        else if \<not> nullish (blood_pressure_systolic p) then ToString_num (blood_pressure_systolic p)
        else blood_pressure_value f3)"
    "heart_rate_value f4 = heart_rate_value f3"
    "temperature_value f4 = temperature_value f3"
    "pre_existing_conditions_value f4 = pre_existing_conditions_value f3"
    by (simp_all add: f4_def)
  have s5: "age_value f5 = age_value f4" "gender_value f5 = gender_value f4"
    "symptoms_value f5 = symptoms_value f4" "blood_pressure_value f5 = blood_pressure_value f4"
    "heart_rate_value f5 = (if \<not> nullish (heart_rate p) then ToString_num (heart_rate p) else heart_rate_value f4)"
    "temperature_value f5 = temperature_value f4"
    "pre_existing_conditions_value f5 = pre_existing_conditions_value f4"
    by (simp_all add: f5_def)
  have s6: "age_value f6 = age_value f5" "gender_value f6 = gender_value f5"
    "symptoms_value f6 = symptoms_value f5" "blood_pressure_value f6 = blood_pressure_value f5"
    "heart_rate_value f6 = heart_rate_value f5"
    "temperature_value f6 = (if \<not> nullish (temperature p) then ToString_num (temperature p) else temperature_value f5)"
    "pre_existing_conditions_value f6 = pre_existing_conditions_value f5"
    by (simp_all add: f6_def)
  have s7: "age_value f7 = age_value f6" "gender_value f7 = gender_value f6"
    "symptoms_value f7 = symptoms_value f6" "blood_pressure_value f7 = blood_pressure_value f6"
    "heart_rate_value f7 = heart_rate_value f6" "temperature_value f7 = temperature_value f6"
    "pre_existing_conditions_value f7 =
       (case pre_existing_conditions p of
          Undefined \<Rightarrow> pre_existing_conditions_value f6
        | Null \<Rightarrow> pre_existing_conditions_value f6
        | Val cs \<Rightarrow> (if cs \<noteq> [] then join (js '', '') cs else pre_existing_conditions_value f6))"
    by (simp_all add: f7_def split: jsfield.splits)
  show "age_value (fillFormFromPatient (Val p) f) =
     (if \<not> nullish (age p) then ToString_num (age p) else age_value f)"
    by (simp only: eq s7 s6 s5 s4 s3 s2 s1)
  show "gender_value (fillFormFromPatient (Val p) f) =
     (if truthy_str (gender p) then ToString (gender p) else gender_value f)"
    by (simp only: eq s7 s6 s5 s4 s3 s2 s1)
  show "symptoms_value (fillFormFromPatient (Val p) f) =
     (if truthy_str (symptoms p) then ToString (symptoms p) else symptoms_value f)"
    by (simp only: eq s7 s6 s5 s4 s3 s2 s1)
  show "blood_pressure_value (fillFormFromPatient (Val p) f) =
     (if \<not> nullish (blood_pressure_systolic p) \<and> \<not> nullish (blood_pressure_diastolic p)
      then ToString_num (blood_pressure_systolic p) @ js ''/'' @ ToString_num (blood_pressure_diastolic p)
      else if \<not> nullish (blood_pressure_systolic p) then ToString_num (blood_pressure_systolic p)
      else blood_pressure_value f)"
    by (simp only: eq s7 s6 s5 s4 s3 s2 s1)
  show "heart_rate_value (fillFormFromPatient (Val p) f) =
     (if \<not> nullish (heart_rate p) then ToString_num (heart_rate p) else heart_rate_value f)"
    by (simp only: eq s7 s6 s5 s4 s3 s2 s1)
  show "temperature_value (fillFormFromPatient (Val p) f) =
     (if \<not> nullish (temperature p) then ToString_num (temperature p) else temperature_value f)"
    by (simp only: eq s7 s6 s5 s4 s3 s2 s1)
  show "pre_existing_conditions_value (fillFormFromPatient (Val p) f) =
     (case pre_existing_conditions p of
        Undefined \<Rightarrow> pre_existing_conditions_value f
      | Null \<Rightarrow> pre_existing_conditions_value f
      | Val cs \<Rightarrow> (if cs \<noteq> [] then join (js '', '') cs else pre_existing_conditions_value f))"
    by (simp only: eq s7 s6 s5 s4 s3 s2 s1)
qed

lemma fillFormFromPatient_nullish:
  "fillFormFromPatient Null f = f \<and> fillFormFromPatient Undefined f = f"
  by (simp add: fillFormFromPatient_def)

text \<open>
  Claim C5: \<open>fillFormFromPatient\<close> overwrites a control only from a property the patient
  object has, and a control whose property is missing keeps what it held. The blood
  pressure control receives \<^verbatim>\<open>systolic/diastolic\<close> when both values are there, the
  systolic value alone when only that one is there, and keeps what it held otherwise.
  Without a patient object the form is unchanged.
\<close>

theorem fillFormFromPatient_fields:
  "age_value (fillFormFromPatient (Val p) f) =
     (case age p of Val a \<Rightarrow> Number_toString a | Null \<Rightarrow> age_value f | Undefined \<Rightarrow> age_value f)
   \<and> gender_value (fillFormFromPatient (Val p) f) =
     (case gender p of Val g \<Rightarrow> (if g = [] then gender_value f else g)
                     | Null \<Rightarrow> gender_value f | Undefined \<Rightarrow> gender_value f)
   \<and> symptoms_value (fillFormFromPatient (Val p) f) =
     (case symptoms p of Val s \<Rightarrow> (if s = [] then symptoms_value f else s)
                       | Null \<Rightarrow> symptoms_value f | Undefined \<Rightarrow> symptoms_value f)
   \<and> blood_pressure_value (fillFormFromPatient (Val p) f) =
     (case blood_pressure_systolic p of
        Val s \<Rightarrow> (case blood_pressure_diastolic p of
                    Val d \<Rightarrow> Number_toString s @ js ''/'' @ Number_toString d
                  | Null \<Rightarrow> Number_toString s
                  | Undefined \<Rightarrow> Number_toString s)
      | Null \<Rightarrow> blood_pressure_value f
      | Undefined \<Rightarrow> blood_pressure_value f)
   \<and> heart_rate_value (fillFormFromPatient (Val p) f) =
     (case heart_rate p of Val h \<Rightarrow> Number_toString h
                         | Null \<Rightarrow> heart_rate_value f | Undefined \<Rightarrow> heart_rate_value f)
   \<and> temperature_value (fillFormFromPatient (Val p) f) =
     (case temperature p of Val t \<Rightarrow> Number_toString t
                          | Null \<Rightarrow> temperature_value f | Undefined \<Rightarrow> temperature_value f)
   \<and> pre_existing_conditions_value (fillFormFromPatient (Val p) f) =
     (case pre_existing_conditions p of
        Val cs \<Rightarrow> (if cs = [] then pre_existing_conditions_value f else join (js '', '') cs)
      | Null \<Rightarrow> pre_existing_conditions_value f
      | Undefined \<Rightarrow> pre_existing_conditions_value f)
   \<and> fillFormFromPatient Null f = f
   \<and> fillFormFromPatient Undefined f = f"
  by (intro conjI)
    (simp_all add: fillFormFromPatient_Val fillFormFromPatient_nullish nullish_def truthy_str_def
       ToString_def ToString_num_def split: jsfield.splits)

text \<open>
  A patient with the age 52 and the blood pressure 130 over 85: the age control becomes
  \<^verbatim>\<open>52\<close>, the blood pressure control \<^verbatim>\<open>130/85\<close>, and the other five controls keep what
  the user had typed.
\<close>

theorem fillFormFromPatient_fields_witness:
  "fillFormFromPatient (Val patient4) form0 =
     form0\<lparr>age_value := js ''52'', blood_pressure_value := js ''130/85''\<rparr>"
  using fillFormFromPatient_fields [of patient4 form0]
  by (simp add: patient4_def form0_def Number_toString_small js_def)

text \<open>
  Claim C10: a property that is there and empty is treated as missing (an empty gender,
  empty symptoms and an empty list of conditions leave their controls as they were),
  while the numeric properties are tested against \<^verbatim>\<open>null\<close> only, so that a zero is
  written: \<^verbatim>\<open>0\<close> for the age, the heart rate and the temperature, and a zero systolic or
  diastolic value into the blood pressure control.
\<close>

theorem empty_is_absent_zero_is_present:
  "(gender p = Val [] \<longrightarrow> gender_value (fillFormFromPatient (Val p) f) = gender_value f)
   \<and> (symptoms p = Val [] \<longrightarrow> symptoms_value (fillFormFromPatient (Val p) f) = symptoms_value f)
   \<and> (pre_existing_conditions p = Val [] \<longrightarrow>
        pre_existing_conditions_value (fillFormFromPatient (Val p) f) = pre_existing_conditions_value f)
   \<and> (age p = Val 0 \<longrightarrow> age_value (fillFormFromPatient (Val p) f) = js ''0'')
   \<and> (heart_rate p = Val 0 \<longrightarrow> heart_rate_value (fillFormFromPatient (Val p) f) = js ''0'')
   \<and> (temperature p = Val 0 \<longrightarrow> temperature_value (fillFormFromPatient (Val p) f) = js ''0'')
   \<and> (blood_pressure_systolic p = Val 0 \<and> nullish (blood_pressure_diastolic p) \<longrightarrow>
        blood_pressure_value (fillFormFromPatient (Val p) f) = js ''0'')
   \<and> (blood_pressure_systolic p = Val 0 \<and> blood_pressure_diastolic p = Val d \<longrightarrow>
        blood_pressure_value (fillFormFromPatient (Val p) f) = js ''0/'' @ Number_toString d)
   \<and> (blood_pressure_systolic p = Val s \<and> blood_pressure_diastolic p = Val 0 \<longrightarrow>
        blood_pressure_value (fillFormFromPatient (Val p) f) = Number_toString s @ js ''/0'')"
  by (intro conjI impI)
    (simp_all add: fillFormFromPatient_Val nullish_def truthy_str_def ToString_def
       ToString_num_def Number_toString_0 js_def split: jsfield.splits)

text \<open>
  A patient whose strings and list are empty and whose numbers are zero, without and with
  a diastolic value.
\<close>

theorem empty_is_absent_zero_is_present_witness:
  "fillFormFromPatient (Val (patient_zero Null)) form0 =
     form0\<lparr>age_value := js ''0'', blood_pressure_value := js ''0'', heart_rate_value := js ''0'',
            temperature_value := js ''0''\<rparr>
   \<and> blood_pressure_value (fillFormFromPatient (Val (patient_zero (Val 0))) form0) = js ''0/0''"
  using empty_is_absent_zero_is_present [of "patient_zero Null" form0 0 0]
    empty_is_absent_zero_is_present [of "patient_zero (Val 0)" form0 0 0]
  by (simp add: patient_zero_def form0_def nullish_def Number_toString_0 js_def)

subsection \<open>Dashboard\<close>

text \<open>
  When the promise of the summary call is rejected (the fetch is rejected, or the body of
  the response does not parse) or fulfilled with \<^verbatim>\<open>null\<close>, the recent feed, if the page has
  one, is replaced by the message \<^verbatim>\<open>Could not load summary.\<close>, and the three counts
  and the department list are left as they were.
\<close>

lemma summary_rejected_frame:
  assumes "dashboardSummary out = Rejected m \<or> dashboardSummary out = FulfilledNull"
  shows "stat_low (loadDashboardSummary out d) = stat_low d
    \<and> stat_medium (loadDashboardSummary out d) = stat_medium d
    \<and> stat_high (loadDashboardSummary out d) = stat_high d
    \<and> dept_bars (loadDashboardSummary out d) = dept_bars d
    \<and> recent_triage_list (loadDashboardSummary out d) =
        (case recent_triage_list d of
           None \<Rightarrow> None
         | Some h \<Rightarrow> Some (js ''<p class=\"empty-state text-slate-500\">Could not load summary.</p>''))"
  using assms by (auto simp: loadDashboardSummary_def summary_failed_def split: option.splits)

lemma dashboardSummary_settles:
  "dashboardSummary (NetworkError m :: 'a fetch_outcome) = Rejected m
   \<and> dashboardSummary (Response ok (Unparseable m) :: 'a fetch_outcome) = Rejected m
   \<and> dashboardSummary (Response ok JsonNull :: 'a fetch_outcome) = FulfilledNull
   \<and> dashboardSummary (Response ok (Object err (j::'a))) = Fulfilled j"
  by (simp add: dashboardSummary_def)

text \<open>
  Claim C6: when the summary fetch fails at the transport level, the recent feed is
  replaced by \<^verbatim>\<open>Could not load summary.\<close> and the other panels are left unchanged. The
  call does not look at the status of the response, unlike the three calls that post:
  on a response 500 whose body is \<^verbatim>\<open>{"error": "database down"}\<close> the promise is
  fulfilled, the first callback runs on a summary without any of its properties, the
  three counts are overwritten with \<^verbatim>\<open>0\<close>, the department list with
  \<^verbatim>\<open>No data yet.\<close>, and the recent feed keeps what it showed; the triage call turns the
  same response into a failure.
\<close>

theorem summary_http_error_overwrites:
  "loadDashboardSummary (Response False (Object (Some (JStr (js ''database down''))) no_summary)) dash_all
     = \<lparr>stat_low = Some (js ''0''), stat_medium = Some (js ''0''), stat_high = Some (js ''0''),
        dept_bars = Some (js ''<p class=\"empty-state\" style=\"margin:0;\">No data yet.</p>''),
        recent_triage_list = Some (js ''<p>old feed</p>'')\<rparr>
   \<and> dash_all
     = \<lparr>stat_low = Some (js ''3''), stat_medium = Some (js ''1''), stat_high = Some (js ''2''),
        dept_bars = Some (js ''<p>old</p>''),
        recent_triage_list = Some (js ''<p>old feed</p>'')\<rparr>
   \<and> triage (Response False (Object (Some (JStr (js ''database down''))) no_summary))
     = Rejected (js ''database down'')"
  by (simp add: loadDashboardSummary_def dashboardSummary_def summary_loaded_def no_summary_def
        dash_all_def dept_bars_html_def num_or_def set_textContent_def serialize_text_def
        escape_unit_def triage_def error_message_def js_def)

lemma dept_bars_summary_loaded:
  "dept_bars (summary_loaded data d) =
     (case dept_bars d of None \<Rightarrow> None | Some h \<Rightarrow> Some (dept_bars_html data))"
  by (simp add: summary_loaded_def Let_def split: option.splits jsfield.splits)

text \<open>
  Claim C8, as the client has it: the department list, when the page has its container,
  shows for every department of the summary its name, a bar whose width is
  \<^verbatim>\<open>Math.round\<close> of the count divided by the total and multiplied by 100, the quotient
  and the product being the binary64 ones (each the exact result rounded to the nearest
  double), and the count itself; the total counts as 1 when it is zero or missing; and a
  summary without departments shows \<^verbatim>\<open>No data yet.\<close> in place of the list.
\<close>

theorem department_bar_list:
  "dept_bars (summary_loaded data d) =
     (case dept_bars d of
        None \<Rightarrow> None
      | Some h \<Rightarrow>
          Some (let entries = (case by_department data of Val m \<Rightarrow> m | Null \<Rightarrow> [] | Undefined \<Rightarrow> []);
                    denominator = (case total_triages data of
                                     Val t \<Rightarrow> (if binary64 t = Fin 0 then Fin 1 else binary64 t)
                                   | Null \<Rightarrow> Fin 1
                                   | Undefined \<Rightarrow> Fin 1)
                in if entries = [] then js ''<p class=\"empty-state\" style=\"margin:0;\">No data yet.</p>''
                   else concat (map (\<lambda>e.
                          js ''<div class=\"dept-item\"><div class=\"dept-item-name\">'' @ escapeHtml (Val (fst e))
                          @ js ''</div><div class=\"dept-item-bar\"><div class=\"dept-item-fill\" style=\"width:''
                          @ toString_number
                              (Math_round (num_mul (num_div (binary64 (snd e)) denominator) (Fin 100)))
                          @ js ''%\"></div></div><div class=\"dept-item-count\">'' @ Number_toString (snd e)
                          @ js ''</div></div>'') entries)))"
proof -
  have den: "num_or (total_triages data) (Fin 1) =
      (case total_triages data of
         Val t \<Rightarrow> (if binary64 t = Fin 0 then Fin 1 else binary64 t)
       | Null \<Rightarrow> Fin 1
       | Undefined \<Rightarrow> Fin 1)"
    by (simp add: num_or_def truthy_num_binary64 split: jsfield.splits)
  have tr: "truthy_num (num_or (total_triages data) (Fin 1))"
    by (simp add: num_or_def split: jsfield.splits)
  have item: "\<And>e. dept_item (num_or (total_triages data) (Fin 1)) e =
      js ''<div class=\"dept-item\"><div class=\"dept-item-name\">'' @ escapeHtml (Val (fst e))
      @ js ''</div><div class=\"dept-item-bar\"><div class=\"dept-item-fill\" style=\"width:''
      @ toString_number
          (Math_round (num_mul (num_div (binary64 (snd e)) (num_or (total_triages data) (Fin 1))) (Fin 100)))
      @ js ''%\"></div></div><div class=\"dept-item-count\">'' @ Number_toString (snd e)
      @ js ''</div></div>''"
    using tr by (simp add: dept_item_def dept_pct_def Let_def)
  have html: "dept_bars_html data =
      (let entries = (case by_department data of Val m \<Rightarrow> m | Null \<Rightarrow> [] | Undefined \<Rightarrow> []);
           denominator = (case total_triages data of
                            Val t \<Rightarrow> (if binary64 t = Fin 0 then Fin 1 else binary64 t)
                          | Null \<Rightarrow> Fin 1
                          | Undefined \<Rightarrow> Fin 1)
       in if entries = [] then js ''<p class=\"empty-state\" style=\"margin:0;\">No data yet.</p>''
          else concat (map (\<lambda>e.
                 js ''<div class=\"dept-item\"><div class=\"dept-item-name\">'' @ escapeHtml (Val (fst e))
                 @ js ''</div><div class=\"dept-item-bar\"><div class=\"dept-item-fill\" style=\"width:''
                 @ toString_number
                     (Math_round (num_mul (num_div (binary64 (snd e)) denominator) (Fin 100)))
                 @ js ''%\"></div></div><div class=\"dept-item-count\">'' @ Number_toString (snd e)
                 @ js ''</div></div>'') entries))"
    unfolding dept_bars_html_def Let_def item den [symmetric] by simp
  show ?thesis unfolding dept_bars_summary_loaded html by simp
qed

text \<open>
  Three triages in ER and one in Cardiology, of four: the bars are 75% and 25% wide, in
  the order of the summary.
\<close>

theorem department_bar_list_witness:
  "dept_bars (summary_loaded summary5 dash0) =
     Some (js ''<div class=\"dept-item\"><div class=\"dept-item-name\">ER</div><div class=\"dept-item-bar\"><div class=\"dept-item-fill\" style=\"width:75%\"></div></div><div class=\"dept-item-count\">3</div></div><div class=\"dept-item\"><div class=\"dept-item-name\">Cardiology</div><div class=\"dept-item-bar\"><div class=\"dept-item-fill\" style=\"width:25%\"></div></div><div class=\"dept-item-count\">1</div></div>'')"
  using department_bar_list [of summary5 dash0]
  by (simp add: summary5_def dash0_def binary64_small percent_values toString_percent positive_toString_percent
       Number_toString_small escapeHtml_def nullish_def ToString_def serialize_text_def
       escape_unit_def js_def)

text \<open>
  Claim C8 as it was stated, with the quotient, the product and the rounding taken
  exactly, fails. For 23 triages of 40 the exact percentage is 57.5, whose nearest integer
  is 58 with a tie going up and with a tie going to the even integer alike, and the bar
  is 57% wide: the binary64 quotient is the double next to 0.575 and its binary64 product
  with 100 is 57.49999999999999. For 29 triages of 200 the exact percentage is 14.5, which
  \<^verbatim>\<open>Math.round\<close> would take to 15, and the bar is 14% wide.
\<close>

theorem exact_percentage_counterexample:
  "round (23 / 40 * 100 :: rat) = 58
   \<and> round_half_even (23 / 40 * 100) = 58
   \<and> dept_bars (summary_loaded summary23 dash0) =
     Some (js ''<div class=\"dept-item\"><div class=\"dept-item-name\">ER</div><div class=\"dept-item-bar\"><div class=\"dept-item-fill\" style=\"width:57%\"></div></div><div class=\"dept-item-count\">23</div></div>'')
   \<and> round (29 / 200 * 100 :: rat) = 15
   \<and> dept_bars (summary_loaded summary29 dash0) =
     Some (js ''<div class=\"dept-item\"><div class=\"dept-item-name\">ER</div><div class=\"dept-item-bar\"><div class=\"dept-item-fill\" style=\"width:14%\"></div></div><div class=\"dept-item-count\">29</div></div>'')"
proof -
  have r: "round (23 / 40 * 100 :: rat) = 58" "round (29 / 200 * 100 :: rat) = 15"
    by (simp_all add: round_def floor_rat_numeral)
  have e: "round_half_even (23 / 40 * 100) = 58"
    by (simp add: round_half_even_def floor_rat_numeral)
  have b: "dept_bars (summary_loaded summary23 dash0) = Some (dept_bars_html summary23)"
    "dept_bars (summary_loaded summary29 dash0) = Some (dept_bars_html summary29)"
    by (simp_all add: dept_bars_summary_loaded dash0_def)
  have h: "dept_bars_html summary23 =
      js ''<div class=\"dept-item\"><div class=\"dept-item-name\">ER</div><div class=\"dept-item-bar\"><div class=\"dept-item-fill\" style=\"width:57%\"></div></div><div class=\"dept-item-count\">23</div></div>''"
    "dept_bars_html summary29 =
      js ''<div class=\"dept-item\"><div class=\"dept-item-name\">ER</div><div class=\"dept-item-bar\"><div class=\"dept-item-fill\" style=\"width:14%\"></div></div><div class=\"dept-item-count\">29</div></div>''"
    by (simp_all add: dept_bars_html_def dept_item_def dept_pct_def num_or_def summary23_def
          summary29_def binary64_small percent_values toString_percent positive_toString_percent
          Number_toString_small escapeHtml_def nullish_def ToString_def serialize_text_def
          escape_unit_def js_def)
  show ?thesis using r e b h by simp
qed

text \<open>
  Claim C9, as the client has it: the excerpt of the recent feed is, for symptoms that are
  not empty, their first 60 code units followed by the ellipsis when they are longer than
  60, and the symptoms themselves when they are not; symptoms that are missing or empty
  give the dash.
\<close>

theorem recent_excerpt:
  "recent_sym r =
     (case patient_input r of
        Val p \<Rightarrow>
          (case symptoms p of
             Val s \<Rightarrow> (if s = [] then [0x2014]
                       else if length s > 60 then take 60 s @ [0x2026]
                       else s)
           | Null \<Rightarrow> [0x2014]
           | Undefined \<Rightarrow> [0x2014])
      | Null \<Rightarrow> [0x2014]
      | Undefined \<Rightarrow> [0x2014])"
  by (simp add: recent_sym_def truthy_str_def split: jsfield.splits)

text \<open>Symptoms of 61 and of 60 code units, and a triage without symptoms.\<close>

theorem recent_excerpt_witness:
  "recent_sym (with_symptoms (Val (replicate 61 0x61))) = replicate 60 0x61 @ [0x2026]
   \<and> recent_sym (with_symptoms (Val (replicate 60 0x61))) = replicate 60 0x61
   \<and> recent_sym (with_symptoms Undefined) = [0x2014]"
  using recent_excerpt [of "with_symptoms (Val (replicate 61 0x61))"]
    recent_excerpt [of "with_symptoms (Val (replicate 60 0x61))"]
    recent_excerpt [of "with_symptoms Undefined"]
  by (simp add: with_symptoms_def)

text \<open>
  Claim C9 as it was stated fails at the empty string, which is no longer than 60: its
  excerpt is the dash, not the string itself.
\<close>

theorem empty_symptoms_excerpt_counterexample:
  "length ([] :: jsstring) \<le> 60 \<and> recent_sym (with_symptoms (Val [])) = [0x2014]
   \<and> recent_sym (with_symptoms (Val [])) \<noteq> []"
  by (simp add: recent_sym_def with_symptoms_def truthy_str_def)

end
